theory Spec2Isabelle
  imports Complex_Main
begin

section \<open>Exploration node with potential-field correction\<close>

text \<open>
  A shallow embedding of \<^verbatim>\<open>deployment/src/explore_apf.py\<close> and of the timer guard of
  \<^verbatim>\<open>deployment/src/explore.py\<close>. NumPy floating-point arrays are read as lists of
  real numbers: every comparison, sum, product and quotient of the source is the exact
  operation on \<^typ>\<open>real\<close>, so rounding, NaN and signed zeros are outside the model.
\<close>

subsection \<open>Context window: \<^verbatim>\<open>deque(maxlen=context_size + 1)\<close>\<close>

text \<open>
  \<^verbatim>\<open>self.context_queue.append(frame)\<close> on a bounded deque: the frame is added on the
  right and, when the deque then holds more than \<^verbatim>\<open>maxlen\<close> items, the leftmost one is
  discarded.
\<close>

definition deque_append :: "nat \<Rightarrow> 'a list \<Rightarrow> 'a \<Rightarrow> 'a list" where
  "deque_append maxlen q x = (let q' = q @ [x] in if length q' > maxlen then tl q' else q')"

text \<open>The deque after the frames \<open>xs\<close> were appended, in this order, to the empty deque
  created by \<^verbatim>\<open>__init__\<close>.\<close>

definition pushes :: "nat \<Rightarrow> 'a list \<Rightarrow> 'a list" where
  "pushes maxlen xs = foldl (deque_append maxlen) [] xs"

subsection \<open>Plane vectors\<close>

text \<open>A NumPy array of shape \<^verbatim>\<open>(2,)\<close> is a pair of reals.\<close>

type_synonym vec2 = "real \<times> real"

definition vadd :: "vec2 \<Rightarrow> vec2 \<Rightarrow> vec2" where
  "vadd a b = (fst a + fst b, snd a + snd b)"

definition vsub :: "vec2 \<Rightarrow> vec2 \<Rightarrow> vec2" where
  "vsub a b = (fst a - fst b, snd a - snd b)"

definition smult :: "real \<Rightarrow> vec2 \<Rightarrow> vec2" where
  "smult k a = (k * fst a, k * snd a)"

definition vdiv :: "vec2 \<Rightarrow> real \<Rightarrow> vec2" where
  "vdiv a d = (fst a / d, snd a / d)"

text \<open>\<^verbatim>\<open>np.linalg.norm\<close> of a vector of two components.\<close>

definition linalg_norm :: "vec2 \<Rightarrow> real" where
  "linalg_norm a = sqrt ((fst a)\<^sup>2 + (snd a)\<^sup>2)"

subsection \<open>Repulsive force\<close>

text \<open>
  The loop of \<^verbatim>\<open>compute_repulsive_force\<close> over the obstacles, with the running
  \<^verbatim>\<open>rep_force\<close> as accumulator. The guard is the source's
  \<^verbatim>\<open>if dist < 1e-6 or dist > influence_range: continue\<close>.
\<close>

fun repulsive_loop :: "vec2 \<Rightarrow> real \<Rightarrow> vec2 list \<Rightarrow> vec2 \<Rightarrow> vec2" where
  "repulsive_loop point influence_range [] rep_force = rep_force"
| "repulsive_loop point influence_range (obs # obstacles) rep_force =
     (let vec = vsub point obs;
          dist = linalg_norm vec
      in if dist < 1 / 10 ^ 6 \<or> dist > influence_range
         then repulsive_loop point influence_range obstacles rep_force
         else repulsive_loop point influence_range obstacles
                (vadd rep_force (smult (1 / dist ^ 3) (vdiv vec dist))))"

text \<open>\<^verbatim>\<open>obstacles\<close> is \<^verbatim>\<open>None\<close> or an array of points.\<close>

definition compute_repulsive_force :: "vec2 \<Rightarrow> vec2 list option \<Rightarrow> real \<Rightarrow> vec2" where
  "compute_repulsive_force point obstacles influence_range =
     (case obstacles of
        None \<Rightarrow> (0, 0)
      | Some obs \<Rightarrow> repulsive_loop point influence_range obs (0, 0))"

text \<open>
  What one obstacle adds to the force, written after the specification's wording with
  the range test that the code makes (both ends included); compared with the loop
  below.
\<close>

definition contribution :: "vec2 \<Rightarrow> real \<Rightarrow> vec2 \<Rightarrow> vec2" where
  "contribution point influence_range obs =
     (let vec = vsub point obs;
          d = linalg_norm vec
      in if 1 / 10 ^ 6 \<le> d \<and> d \<le> influence_range
         then smult (1 / d ^ 3) (vdiv vec d)
         else (0, 0))"

subsection \<open>Potential-field corrector\<close>

text \<open>
  The module constants \<^verbatim>\<open>MAX_V\<close> and \<^verbatim>\<open>RATE\<close> come from the robot configuration
  file. \<^verbatim>\<open>__init__\<close> evaluates \<^verbatim>\<open>1.0 / RATE\<close> for the timer, so a node exists
  only when the rate is not zero; the theorems about the corrector assume it.
\<close>

record robot_conf =
  max_v :: real
  frame_rate :: real

type_synonym trajectory = "vec2 list"
type_synonym batch = "trajectory list"

text \<open>Line 330: \<^verbatim>\<open>pt = updated_trajs[i, j] * (MAX_V / RATE)\<close>, for the row \<open>i\<close>.\<close>

definition point_at :: "robot_conf \<Rightarrow> trajectory \<Rightarrow> nat \<Rightarrow> vec2" where
  "point_at conf row j = smult (max_v conf / frame_rate conf) (row ! j)"

text \<open>
  The loop over \<^verbatim>\<open>j in range(updated_trajs.shape[1])\<close>. The state is
  \<^verbatim>\<open>(max_force, max_magnitude)\<close>; the force is computed with the default
  \<^verbatim>\<open>influence_range=1.0\<close>. The indices handed to it are those of the row.
\<close>

fun worst_force_loop ::
  "robot_conf \<Rightarrow> vec2 list option \<Rightarrow> trajectory \<Rightarrow> nat list \<Rightarrow> vec2 \<times> real \<Rightarrow> vec2 \<times> real" where
  "worst_force_loop conf obstacles row [] st = st"
| "worst_force_loop conf obstacles row (j # js) (max_force, max_magnitude) =
     (let pt = point_at conf row j;
          rep_force = compute_repulsive_force pt obstacles 1;
          mag = linalg_norm rep_force
      in if mag > max_magnitude
         then worst_force_loop conf obstacles row js (rep_force, mag)
         else worst_force_loop conf obstacles row js (max_force, max_magnitude))"

definition worst_force :: "robot_conf \<Rightarrow> vec2 list option \<Rightarrow> trajectory \<Rightarrow> vec2" where
  "worst_force conf obstacles row =
     fst (worst_force_loop conf obstacles row [0..<length row] ((0, 0), 0))"

text \<open>
  \<^verbatim>\<open>np.arctan2(y, x)\<close> on reals: the angle of the point \<open>(x, y)\<close> in \<open>(-\<pi>, \<pi>]\<close>, and
  \<open>0\<close> at the origin.
\<close>

definition arctan2 :: "real \<Rightarrow> real \<Rightarrow> real" where
  "arctan2 y x =
     (if x > 0 then arctan (y / x)
      else if x < 0 then (if y \<ge> 0 then arctan (y / x) + pi else arctan (y / x) - pi)
      else if y > 0 then pi / 2
      else if y < 0 then - (pi / 2)
      else 0)"

text \<open>\<^verbatim>\<open>np.clip(a, a_min, a_max)\<close>.\<close>

definition clip :: "real \<Rightarrow> real \<Rightarrow> real \<Rightarrow> real" where
  "clip a a_min a_max = min (max a a_min) a_max"

text \<open>Lines 336 and 337: the heading correction for the worst force of a trajectory.\<close>

definition correction_angle :: "vec2 \<Rightarrow> real" where
  "correction_angle max_force =
     clip (arctan2 (snd max_force) (fst max_force)) (- pi / 4) (pi / 4)"

text \<open>The product of \<^verbatim>\<open>rotation_matrix\<close> with one step.\<close>

definition rotate_step :: "real \<Rightarrow> vec2 \<Rightarrow> vec2" where
  "rotate_step angle p =
     (cos angle * fst p - sin angle * snd p, sin angle * fst p + cos angle * snd p)"

text \<open>\<^verbatim>\<open>(rotation_matrix @ traj.T).T\<close>: every row of the trajectory is rotated.\<close>

definition rotate_trajectory :: "real \<Rightarrow> trajectory \<Rightarrow> trajectory" where
  "rotate_trajectory angle row = map (rotate_step angle) row"

text \<open>
  Arrays live in a store: an address is an index into the list of allocated arrays.
  \<^verbatim>\<open>trajectories.copy()\<close> allocates a new array with the same contents.
\<close>

type_synonym heap = "batch list"

definition np_copy :: "heap \<Rightarrow> nat \<Rightarrow> nat \<times> heap" where
  "np_copy h a = (length h, h @ [h ! a])"

text \<open>
  The loop over \<^verbatim>\<open>i in range(updated_trajs.shape[0])\<close>; \<open>u\<close> is the address held by
  \<^verbatim>\<open>updated_trajs\<close>. Each round reads row \<open>i\<close> of that array and overwrites it.
  (An array is rectangular, so \<^verbatim>\<open>shape[1]\<close> is the length of each row.)
\<close>

fun trajectory_loop :: "robot_conf \<Rightarrow> vec2 list option \<Rightarrow> nat \<Rightarrow> nat list \<Rightarrow> heap \<Rightarrow> heap" where
  "trajectory_loop conf obstacles u [] h = h"
| "trajectory_loop conf obstacles u (i # is) h =
     (let row = (h ! u) ! i;
          max_force = worst_force conf obstacles row;
          angle = correction_angle max_force
      in trajectory_loop conf obstacles u is
           (h[u := (h ! u)[i := rotate_trajectory angle row]]))"

text \<open>
  \<^verbatim>\<open>apply_repulsive_forces_to_trajectories\<close>: takes the address of the batch and
  returns the address of the result with the store after the call.
\<close>

definition apply_repulsive_forces_to_trajectories ::
  "robot_conf \<Rightarrow> vec2 list option \<Rightarrow> heap \<Rightarrow> nat \<Rightarrow> nat \<times> heap" where
  "apply_repulsive_forces_to_trajectories conf obstacle_points h trajectories =
     (case obstacle_points of
        None \<Rightarrow> (trajectories, h)
      | Some obs \<Rightarrow>
          if length obs = 0 then (trajectories, h)
          else (let (updated_trajs, h1) = np_copy h trajectories
                in (updated_trajs,
                    trajectory_loop conf obstacle_points updated_trajs
                      [0..<length (h1 ! updated_trajs)] h1)))"

text \<open>The corrector on a batch value: the batch is the only array of the store.\<close>

definition corrected_batch :: "robot_conf \<Rightarrow> vec2 list option \<Rightarrow> batch \<Rightarrow> batch" where
  "corrected_batch conf obstacle_points b =
     (let (a, h) = apply_repulsive_forces_to_trajectories conf obstacle_points [b] 0 in h ! a)"

text \<open>
  The running sum of the steps of a trajectory, as the specification describes the
  query points; the code has no such sum in the corrector.
\<close>

fun cumulative_from :: "vec2 \<Rightarrow> trajectory \<Rightarrow> trajectory" where
  "cumulative_from acc [] = []"
| "cumulative_from acc (p # ps) = vadd acc p # cumulative_from (vadd acc p) ps"

definition cumulative_displacement :: "trajectory \<Rightarrow> trajectory" where
  "cumulative_displacement row = cumulative_from (0, 0) row"

text \<open>
  One round of the \<open>j\<close> loop as a function of the state \<^verbatim>\<open>(max_force, max_magnitude)\<close>
  and of the force found at the step; used to state what the loop computes.
\<close>

definition pick_worse :: "vec2 \<times> real \<Rightarrow> vec2 \<Rightarrow> vec2 \<times> real" where
  "pick_worse st f = (if linalg_norm f > snd st then (f, linalg_norm f) else st)"

text \<open>What the \<open>i\<close> loop writes into row \<open>i\<close>: the row rotated by its own correction angle.\<close>

definition corrected_row :: "robot_conf \<Rightarrow> vec2 list option \<Rightarrow> trajectory \<Rightarrow> trajectory" where
  "corrected_row conf obs row =
     rotate_trajectory (correction_angle (worst_force conf obs row)) row"

subsection \<open>Depth projector\<close>

text \<open>The per-robot constants set in \<^verbatim>\<open>__init__\<close>.\<close>

datatype robot = Locobot | Locobot2 | Robomaster | Turtlebot4

fun safety_margin :: "robot \<Rightarrow> real" where
  "safety_margin Locobot = 5 / 100"
| "safety_margin Locobot2 = 5 / 100"
| "safety_margin Robomaster = - (1 / 10)"
| "safety_margin Turtlebot4 = 2 / 10"

fun proximity_threshold :: "robot \<Rightarrow> real" where
  "proximity_threshold Locobot = 1"
| "proximity_threshold Locobot2 = 1"
| "proximity_threshold Robomaster = 13 / 10"
| "proximity_threshold Turtlebot4 = 14 / 10"

definition top_view_size :: "int \<times> int" where
  "top_view_size = (400, 400)"

definition top_view_resolution :: "robot \<Rightarrow> real" where
  "top_view_resolution r = real_of_int (fst top_view_size) / proximity_threshold r"

definition top_view_sampling_step :: int where
  "top_view_sampling_step = 5"

text \<open>
  \<^verbatim>\<open>np.int32\<close> of a floating-point value drops the fraction (rounds toward zero).
  Values outside the 32-bit range are not modelled.
\<close>

definition np_int32 :: "real \<Rightarrow> int" where
  "np_int32 x = (if 0 \<le> x then \<lfloor>x\<rfloor> else \<lceil>x\<rceil>)"

text \<open>A point of the cloud is \<open>(X, Y, Z)\<close>. The mask of \<^verbatim>\<open>_image_cb\<close>, line 269.\<close>

type_synonym point3 = "real \<times> real \<times> real"

definition valid_mask :: "robot \<Rightarrow> point3 \<Rightarrow> bool" where
  "valid_mask r p = (case p of (X, Y, Z) \<Rightarrow>
     Z > 0 \<and> Z \<le> proximity_threshold r \<and> Y \<ge> - (5 / 100))"

text \<open>
  One index of the parallel arrays \<^verbatim>\<open>img_x\<close>, \<^verbatim>\<open>img_y\<close>, \<^verbatim>\<open>depth_vals\<close>,
  \<^verbatim>\<open>real_x\<close>, \<^verbatim>\<open>real_z\<close> of \<^verbatim>\<open>_update_top_view_and_obstacles\<close>.
\<close>

record cell =
  img_x :: int
  img_y :: int
  depth_val :: real
  real_x :: real
  real_z :: real

text \<open>Line 273, the shifted depth.\<close>

definition shifted_depth :: "robot \<Rightarrow> real \<Rightarrow> real" where
  "shifted_depth r Z_0 = max (Z_0 - safety_margin r) (1 / 1000)"

text \<open>Line 274, the lateral column of a point with lateral coordinate \<open>X\<close>.\<close>

definition column_of :: "robot \<Rightarrow> real \<Rightarrow> int" where
  "column_of r X = np_int32 (real_of_int (fst top_view_size div 2) + X * top_view_resolution r)"

text \<open>Lines 273 to 275 and 286 to 288 for one point.\<close>

definition rasterize :: "robot \<Rightarrow> point3 \<Rightarrow> cell" where
  "rasterize r p = (case p of (X, Y, Z_0) \<Rightarrow>
     (let Z = shifted_depth r Z_0
      in \<lparr>img_x = column_of r X,
          img_y = np_int32 (real_of_int (snd top_view_size) - Z * top_view_resolution r),
          depth_val = Z, real_x = X, real_z = Z\<rparr>))"

text \<open>The mask \<^verbatim>\<open>valid\<close>, lines 277 to 282.\<close>

definition in_view :: "cell \<Rightarrow> bool" where
  "in_view c = (img_x c \<ge> 0 \<and> img_x c < fst top_view_size \<and>
                img_y c \<ge> 0 \<and> img_y c < snd top_view_size)"

text \<open>The arrays after \<^verbatim>\<open>[valid]\<close>: the points that fall into the grid.\<close>

definition candidates :: "robot \<Rightarrow> point3 list \<Rightarrow> cell list" where
  "candidates r pts = filter in_view (map (rasterize r) pts)"

text \<open>\<^verbatim>\<open>np.argmin\<close>: the first index of a least element (of a list that is not empty).\<close>

fun argmin :: "real list \<Rightarrow> nat" where
  "argmin [] = 0"
| "argmin [x] = 0"
| "argmin (x # y # ys) = (let k = argmin (y # ys) in if x \<le> (y # ys) ! k then 0 else Suc k)"

text \<open>\<^verbatim>\<open>range(0, stop, step)\<close> for a positive step.\<close>

definition py_range :: "int \<Rightarrow> int \<Rightarrow> int list" where
  "py_range stop step = map (\<lambda>k. int k * step) [0..<nat ((stop + step - 1) div step)]"

definition sampled_columns :: "int list" where
  "sampled_columns = py_range (fst top_view_size) top_view_sampling_step"

text \<open>
  The loop over the sampled columns, lines 291 to 295, with the list
  \<^verbatim>\<open>sampled_obstacles\<close> as accumulator.
\<close>

fun column_loop :: "cell list \<Rightarrow> int list \<Rightarrow> (real \<times> real) list \<Rightarrow> (real \<times> real) list" where
  "column_loop cells [] sampled = sampled"
| "column_loop cells (x # xs) sampled =
     (let col_idxs = filter (\<lambda>i. img_x (cells ! i) = x) [0..<length cells]
      in if length col_idxs > 0
         then (let closest_idx = col_idxs ! argmin (map (\<lambda>i. depth_val (cells ! i)) col_idxs)
               in column_loop cells xs
                    (sampled @ [(real_x (cells ! closest_idx), real_z (cells ! closest_idx))]))
         else column_loop cells xs sampled)"

definition sampled_obstacles :: "robot \<Rightarrow> point3 list \<Rightarrow> (real \<times> real) list" where
  "sampled_obstacles r pts = column_loop (candidates r pts) sampled_columns []"

text \<open>
  \<^verbatim>\<open>_update_top_view_and_obstacles\<close>: the new value of \<^verbatim>\<open>self.obstacle_points\<close>,
  with \<^verbatim>\<open>x_local\<close> the depth and \<^verbatim>\<open>y_local\<close> the negated lateral coordinate.
\<close>

definition update_top_view_and_obstacles :: "robot \<Rightarrow> point3 list \<Rightarrow> vec2 list option" where
  "update_top_view_and_obstacles r pts =
     (let sampled = sampled_obstacles r pts
      in if sampled \<noteq> [] then Some (map (\<lambda>ob. (snd ob, - fst ob)) sampled) else None)"

text \<open>What one sampled column adds to \<^verbatim>\<open>sampled_obstacles\<close>; used to state what the
  loop computes.\<close>

definition column_pick :: "cell list \<Rightarrow> int \<Rightarrow> (real \<times> real) list" where
  "column_pick cells x =
     (let col_idxs = filter (\<lambda>i. img_x (cells ! i) = x) [0..<length cells]
      in if length col_idxs > 0
         then (let closest_idx = col_idxs ! argmin (map (\<lambda>i. depth_val (cells ! i)) col_idxs)
               in [(real_x (cells ! closest_idx), real_z (cells ! closest_idx))])
         else [])"

subsection \<open>The node and its callbacks\<close>

text \<open>
  The fields of the node that the callbacks read and write. A frame is of any type
  \<open>'f\<close>; times are in nanoseconds.
\<close>

record 'f node =
  robot :: robot
  robot_config :: robot_conf
  context_size :: nat
  waypoint :: int
  normalize :: bool
  context_queue :: "'f list"
  last_ctx_time :: int
  obstacle_points :: "vec2 list option"

text \<open>
  \<^verbatim>\<open>_image_cb\<close> of \<^verbatim>\<open>explore_apf.py\<close>. \<open>points\<close> is the point cloud that the depth
  model returns for the frame. A frame that comes less than \<^verbatim>\<open>ctx_dt = 0.25\<close> seconds
  after the last accepted one is ignored.
\<close>

definition image_cb :: "int \<Rightarrow> 'f \<Rightarrow> point3 list \<Rightarrow> 'f node \<Rightarrow> 'f node" where
  "image_cb now frame points s =
     (if real_of_int (now - last_ctx_time s) < (1 / 4) * 10 ^ 9 then s
      else s\<lparr>context_queue := deque_append (context_size s + 1) (context_queue s) frame,
             last_ctx_time := now,
             obstacle_points :=
               update_top_view_and_obstacles (robot s) (filter (valid_mask (robot s)) points)\<rparr>)"

text \<open>Messages on the three outgoing topics, and the errors of the timer callback.\<close>

datatype 'f msg =
  SampledActions "real list"
| Waypoint real real
| Viz 'f batch bool

datatype error = IndexError | InferenceError

text \<open>Python indexing of a sequence: a negative index counts from the end.\<close>

definition py_index :: "'a list \<Rightarrow> int \<Rightarrow> error + nat" where
  "py_index xs i =
     (let n = int (length xs); k = (if i < 0 then n + i else i)
      in if 0 \<le> k \<and> k < n then Inr (nat k) else Inl IndexError)"

text \<open>\<^verbatim>\<open>traj_batch.flatten()\<close>.\<close>

definition flatten :: "batch \<Rightarrow> real list" where
  "flatten b = concat (map (\<lambda>row. concat (map (\<lambda>p. [fst p, snd p]) row)) b)"

text \<open>
  \<^verbatim>\<open>_publish_action_msgs\<close> of \<^verbatim>\<open>explore_apf.py\<close>: the messages published, and the
  error that stopped it, if any.
\<close>

definition publish_action_msgs :: "int \<Rightarrow> batch \<Rightarrow> 'f msg list \<times> error option" where
  "publish_action_msgs w traj_batch =
     (let sampled_actions_msg = SampledActions (0 # flatten traj_batch)
      in case py_index traj_batch 0 of
           Inl e \<Rightarrow> ([sampled_actions_msg], Some e)
         | Inr i \<Rightarrow>
             (case py_index (traj_batch ! i) w of
                Inl e \<Rightarrow> ([sampled_actions_msg], Some e)
              | Inr j \<Rightarrow>
                  (let chosen = traj_batch ! i ! j
                   in ([sampled_actions_msg, Waypoint (fst chosen) (snd chosen)], None))))"

text \<open>
  \<^verbatim>\<open>_timer_cb\<close> of \<^verbatim>\<open>explore_apf.py\<close>. \<open>sampler\<close> stands for the encoder and the
  denoising loop up to \<^verbatim>\<open>to_numpy(get_action(naction))\<close>; it may fail. The overlay is
  the message \<open>Viz\<close> of the latest frame, the batch drawn and the colour flag.
\<close>

definition timer_cb ::
  "('f list \<Rightarrow> error + batch) \<Rightarrow> 'f node \<Rightarrow> 'f msg list \<times> error option" where
  "timer_cb sampler s =
     (if length (context_queue s) \<le> context_size s then ([], None)
      else case sampler (context_queue s) of
             Inl e \<Rightarrow> ([], Some e)
           | Inr sampled \<Rightarrow>
               (let is_apf_applied =
                      (case obstacle_points s of None \<Rightarrow> False | Some obs \<Rightarrow> length obs > 0);
                    traj_batch = corrected_batch (robot_config s) (obstacle_points s) sampled
                in case publish_action_msgs (waypoint s) traj_batch of
                     (msgs, Some e) \<Rightarrow> (msgs, Some e)
                   | (msgs, None) \<Rightarrow>
                       (msgs @ [Viz (last (context_queue s)) traj_batch is_apf_applied], None)))"

text \<open>
  \<^verbatim>\<open>_publish_action_msgs\<close> of \<^verbatim>\<open>explore.py\<close>: with \<^verbatim>\<open>normalize\<close> the chosen step
  is scaled in place, so the batch drawn afterwards has the scaled step. The batch after
  the call is returned with the messages.
\<close>

definition publish_action_msgs_plain ::
  "robot_conf \<Rightarrow> bool \<Rightarrow> int \<Rightarrow> batch \<Rightarrow> ('f msg list \<times> error option) \<times> batch" where
  "publish_action_msgs_plain c normalized w traj_batch =
     (let sampled_actions_msg = SampledActions (0 # flatten traj_batch)
      in case py_index traj_batch 0 of
           Inl e \<Rightarrow> (([sampled_actions_msg], Some e), traj_batch)
         | Inr i \<Rightarrow>
             (case py_index (traj_batch ! i) w of
                Inl e \<Rightarrow> (([sampled_actions_msg], Some e), traj_batch)
              | Inr j \<Rightarrow>
                  (let chosen = (if normalized then smult (max_v c / frame_rate c) (traj_batch ! i ! j)
                                 else traj_batch ! i ! j);
                       traj_batch' = traj_batch[i := (traj_batch ! i)[j := chosen]]
                   in (([sampled_actions_msg, Waypoint (fst chosen) (snd chosen)], None),
                       traj_batch'))))"

text \<open>\<^verbatim>\<open>_timer_cb\<close> of \<^verbatim>\<open>explore.py\<close>, which has no corrector.\<close>

definition timer_cb_plain ::
  "('f list \<Rightarrow> error + batch) \<Rightarrow> 'f node \<Rightarrow> 'f msg list \<times> error option" where
  "timer_cb_plain sampler s =
     (if length (context_queue s) \<le> context_size s then ([], None)
      else case sampler (context_queue s) of
             Inl e \<Rightarrow> ([], Some e)
           | Inr naction_np \<Rightarrow>
               (case publish_action_msgs_plain (robot_config s) (normalize s) (waypoint s) naction_np of
                  ((msgs, Some e), b) \<Rightarrow> (msgs, Some e)
                | ((msgs, None), b) \<Rightarrow> (msgs @ [Viz (last (context_queue s)) b False], None)))"

subsection \<open>Properties of the context window\<close>

lemma pushes_snoc: "pushes c (xs @ [x]) = deque_append c (pushes c xs) x"
  by (simp add: pushes_def)

lemma tl_drop_snoc: "n \<le> length xs \<Longrightarrow> tl (drop n xs @ [x]) = drop (Suc n) (xs @ [x])"
proof (cases "n = length xs")
  case True
  then show ?thesis by simp
next
  case False
  assume le: "n \<le> length xs"
  with False have "drop n xs \<noteq> []" by simp
  then have "tl (drop n xs @ [x]) = tl (drop n xs) @ [x]" by simp
  also have "\<dots> = drop (Suc n) xs @ [x]" by (simp add: drop_Suc tl_drop)
  finally show ?thesis using le False by simp
qed

lemma pushes_eq_drop: "pushes c xs = drop (length xs - c) xs"
proof (induction xs rule: rev_induct)
  case Nil
  show ?case by (simp add: pushes_def)
next
  case (snoc x xs)
  show ?case
  proof (cases "c \<le> length xs")
    case True
    then have "Suc (length xs) - c = Suc (length xs - c)" by simp
    moreover have "tl (drop (length xs - c) xs @ [x]) = drop (Suc (length xs - c)) (xs @ [x])"
      by (rule tl_drop_snoc) simp
    ultimately show ?thesis using True snoc
      by (simp add: pushes_snoc deque_append_def Let_def)
  next
    case False
    with snoc show ?thesis
      by (simp add: pushes_snoc deque_append_def Let_def)
  qed
qed

text \<open>
  C4. With capacity \<open>c = cs + 1\<close>, where \<open>cs\<close> is the context size, the window never
  holds more than \<open>c\<close> frames, whatever was pushed; after more than \<open>c\<close> pushes it holds
  exactly \<open>c\<close> frames, and they are the last \<open>c\<close> pushed frames, oldest first. One push
  keeps the bound, and the image callback pushes the frame when it accepts it.
\<close>

theorem context_window_sliding:
  "length (pushes (cs + 1) xs) \<le> cs + 1 \<and>
   (cs + 1 < length xs \<longrightarrow>
      length (pushes (cs + 1) xs) = cs + 1 \<and>
      pushes (cs + 1) xs = drop (length xs - (cs + 1)) xs) \<and>
   (length q \<le> cs + 1 \<longrightarrow> length (deque_append (cs + 1) q x) \<le> cs + 1) \<and>
   context_queue (image_cb now frame pts s) =
     (if real_of_int (now - last_ctx_time s) < (1 / 4) * 10 ^ 9 then context_queue s
      else deque_append (context_size s + 1) (context_queue s) frame)"
  by (auto simp: pushes_eq_drop deque_append_def Let_def image_cb_def)

theorem context_window_sliding_witness:
  "length (pushes (1 + 1) [10, 20, 30, 40 :: nat]) \<le> 1 + 1 \<and>
   1 + 1 < length [10, 20, 30, 40 :: nat] \<and>
   length (pushes (1 + 1) [10, 20, 30, 40 :: nat]) = 1 + 1 \<and>
   pushes (1 + 1) [10, 20, 30, 40 :: nat] = [30, 40] \<and>
   length [10, 20 :: nat] \<le> 1 + 1 \<and>
   deque_append (1 + 1) [10, 20 :: nat] 30 = [20, 30] \<and>
   context_queue (image_cb (10 ^ 9) 30 []
     \<lparr>robot = Locobot, robot_config = \<lparr>max_v = 1, frame_rate = 4\<rparr>,
      context_size = 1, waypoint = 2, normalize = False, context_queue = [10, 20 :: nat],
      last_ctx_time = 0, obstacle_points = None\<rparr>) = [20, 30]"
  using context_window_sliding [of 1 "[10, 20, 30, 40 :: nat]" "[10, 20]" 30 "10 ^ 9" 30 "[]"
     "\<lparr>robot = Locobot, robot_config = \<lparr>max_v = 1, frame_rate = 4\<rparr>,
      context_size = 1, waypoint = 2, normalize = False, context_queue = [10, 20 :: nat],
      last_ctx_time = 0, obstacle_points = None\<rparr>"]
  by (simp add: deque_append_def)

subsection \<open>Properties of the repulsive force\<close>

lemma vadd_zero_right: "vadd a (0, 0) = a"
  by (simp add: vadd_def)

lemma vadd_zero_left: "vadd (0, 0) a = a"
  by (simp add: vadd_def)

lemma repulsive_loop_step:
  "repulsive_loop p r (ob # obs) acc = repulsive_loop p r obs (vadd acc (contribution p r ob))"
  by (simp add: contribution_def Let_def vadd_zero_right not_less)

lemma repulsive_loop_foldl:
  "repulsive_loop p r obs acc = foldl vadd acc (map (contribution p r) obs)"
proof (induction obs arbitrary: acc)
  case Nil
  show ?case by simp
next
  case (Cons ob obs)
  show ?case unfolding repulsive_loop_step by (simp add: Cons.IH)
qed

lemma linalg_norm_pos_iff: "0 < linalg_norm v \<longleftrightarrow> v \<noteq> (0, 0)"
  by (cases v) (simp add: linalg_norm_def sum_power2_gt_zero_iff)

lemma contribution_nonzero_iff:
  "contribution p r ob \<noteq> (0, 0) \<longleftrightarrow>
     1 / 10 ^ 6 \<le> linalg_norm (vsub p ob) \<and> linalg_norm (vsub p ob) \<le> r"
proof (cases "1 / 10 ^ 6 \<le> linalg_norm (vsub p ob) \<and> linalg_norm (vsub p ob) \<le> r")
  case True
  then have pos: "0 < linalg_norm (vsub p ob)" by simp
  then have "vsub p ob \<noteq> (0, 0)" by (simp add: linalg_norm_pos_iff)
  with pos True show ?thesis
    by (cases "vsub p ob") (auto simp: contribution_def Let_def smult_def vdiv_def)
next
  case False
  then show ?thesis by (auto simp: contribution_def Let_def)
qed

lemma norm_unit_x: "linalg_norm (vsub (1, 0) (0, 0)) = 1"
  by (simp add: linalg_norm_def vsub_def)

text \<open>
  C1, as the code has it. The force is the sum, in the order of the obstacles, of one
  contribution for each obstacle. The contribution of an obstacle at distance \<open>d\<close> is
  \<^verbatim>\<open>(1/d^3) * (vec/d)\<close> and not zero exactly when \<^verbatim>\<open>1e-6 <= d <= influence_range\<close>,
  both bounds included; below \<^verbatim>\<open>1e-6\<close> and beyond the range it is zero.
\<close>

theorem repulsive_force_contributions:
  "compute_repulsive_force p (Some obs) r = foldl vadd (0, 0) (map (contribution p r) obs) \<and>
   (contribution p r ob \<noteq> (0, 0) \<longleftrightarrow>
      1 / 10 ^ 6 \<le> linalg_norm (vsub p ob) \<and> linalg_norm (vsub p ob) \<le> r) \<and>
   compute_repulsive_force p (Some [ob]) r =
     (if 1 / 10 ^ 6 \<le> linalg_norm (vsub p ob) \<and> linalg_norm (vsub p ob) \<le> r
      then smult (1 / linalg_norm (vsub p ob) ^ 3) (vdiv (vsub p ob) (linalg_norm (vsub p ob)))
      else (0, 0))"
  by (simp add: compute_repulsive_force_def repulsive_loop_foldl contribution_nonzero_iff
        vadd_zero_left)
     (simp add: contribution_def Let_def)

theorem repulsive_force_contributions_witness:
  "compute_repulsive_force (1, 0) (Some [(0, 0)]) 1 = (1, 0) \<and>
   contribution (1, 0) 1 (0, 0) \<noteq> (0, 0) \<and>
   1 / 10 ^ 6 \<le> linalg_norm (vsub (1, 0) (0, 0)) \<and> linalg_norm (vsub (1, 0) (0, 0)) \<le> 1"
  using repulsive_force_contributions [of "(1, 0)" "[(0, 0)]" 1 "(0, 0)"]
  by (simp add: norm_unit_x contribution_def Let_def)
     (simp add: vsub_def vadd_def smult_def vdiv_def)

text \<open>
  C1, as the claim states it, fails: an obstacle at distance exactly \<open>influence_range\<close>
  is not skipped. With the point \<open>(1, 0)\<close>, one obstacle at the origin and range \<open>1\<close>
  the distance is \<open>1\<close> and the force is \<open>(1, 0)\<close>.
\<close>

theorem boundary_obstacle_counterexample:
  "linalg_norm (vsub (1, 0) (0, 0)) = 1 \<and>
   compute_repulsive_force (1, 0) (Some [(0, 0)]) 1 = (1, 0) \<and>
   compute_repulsive_force (1, 0) (Some [(0, 0)]) 1 \<noteq> (0, 0)"
  by (simp add: compute_repulsive_force_def Let_def norm_unit_x)
     (simp add: vsub_def vadd_def smult_def vdiv_def)

subsection \<open>Properties of the corrector\<close>

lemma worst_force_loop_foldl:
  "worst_force_loop conf obs row js st =
     foldl pick_worse st (map (\<lambda>j. compute_repulsive_force (point_at conf row j) obs 1) js)"
proof (induction js arbitrary: st)
  case Nil
  show ?case by simp
next
  case (Cons j js)
  show ?case by (cases st) (simp add: Let_def pick_worse_def Cons.IH)
qed

lemma map_nth_upt: "map (\<lambda>j. f (row ! j)) [0..<length row] = map f row"
proof -
  have "map f (map ((!) row) [0..<length row]) = map f row"
    by (simp only: map_nth)
  then show ?thesis by (simp add: comp_def)
qed

text \<open>
  C2, as the code has it. The corrector does not sum the steps: the point for step \<open>j\<close>
  is entry \<open>j\<close> of the trajectory times \<^verbatim>\<open>MAX_V / RATE\<close>, another entry of the
  trajectory does not move it, and the worst force of a trajectory is picked among the
  forces at these points, in the order of the steps.
\<close>

theorem query_point_is_scaled_step:
  assumes "frame_rate conf \<noteq> 0"
  shows "worst_force conf obs row =
     fst (foldl pick_worse ((0, 0), 0)
            (map (\<lambda>step. compute_repulsive_force
                            (smult (max_v conf / frame_rate conf) step) obs 1) row)) \<and>
   point_at conf row j = smult (max_v conf / frame_rate conf) (row ! j) \<and>
   (i \<noteq> j \<longrightarrow> point_at conf (row[i := p]) j = point_at conf row j)"
proof -
  have "map (\<lambda>j. compute_repulsive_force (point_at conf row j) obs 1) [0..<length row]
        = map (\<lambda>step. compute_repulsive_force
                            (smult (max_v conf / frame_rate conf) step) obs 1) row"
    unfolding point_at_def by (rule map_nth_upt)
  then show ?thesis
    by (simp add: worst_force_def worst_force_loop_foldl point_at_def)
qed

theorem query_point_is_scaled_step_witness:
  "frame_rate \<lparr>max_v = 1, frame_rate = 2\<rparr> \<noteq> 0 \<and> (0::nat) \<noteq> 1 \<and>
   point_at \<lparr>max_v = 1, frame_rate = 2\<rparr> ([(1, 0), (4, 6)][0 := (5, 5)]) 1 = (2, 3) \<and>
   point_at \<lparr>max_v = 1, frame_rate = 2\<rparr> [(1, 0), (4, 6)] 1 = (2, 3)"
  using query_point_is_scaled_step
          [of "\<lparr>max_v = 1, frame_rate = 2\<rparr>" None "[(1, 0), (4, 6)]" 1 0 "(5, 5)"]
  by (simp add: smult_def)

text \<open>
  C2, as the claim states it, fails: for the trajectory \<open>[(1, 0), (1, 0)]\<close> with scale
  \<open>1\<close> the point of step \<open>1\<close> is \<open>(1, 0)\<close>, while the accumulated displacement of the
  steps \<open>0\<close> and \<open>1\<close> is \<open>(2, 0)\<close>.
\<close>

theorem cumulative_point_counterexample:
  "point_at \<lparr>max_v = 1, frame_rate = 1\<rparr> [(1, 0), (1, 0)] 1 = (1, 0) \<and>
   smult (max_v \<lparr>max_v = 1, frame_rate = 1\<rparr> / frame_rate \<lparr>max_v = 1, frame_rate = 1\<rparr>)
     (cumulative_displacement [(1, 0), (1, 0)] ! 1) = (2, 0) \<and>
   point_at \<lparr>max_v = 1, frame_rate = 1\<rparr> [(1, 0), (1, 0)] 1 \<noteq>
   smult (max_v \<lparr>max_v = 1, frame_rate = 1\<rparr> / frame_rate \<lparr>max_v = 1, frame_rate = 1\<rparr>)
     (cumulative_displacement [(1, 0), (1, 0)] ! 1)"
  by (simp add: point_at_def smult_def cumulative_displacement_def vadd_def)

lemma correction_angle_bounds: "- (pi / 4) \<le> correction_angle f \<and> correction_angle f \<le> pi / 4"
  using pi_gt_zero by (simp add: correction_angle_def clip_def)

lemma correction_angle_zero: "correction_angle (0, 0) = 0"
  using pi_gt_zero by (simp add: correction_angle_def clip_def arctan2_def)

lemma rotate_zero: "rotate_step 0 p = p"
  by (simp add: rotate_step_def)

lemma unit_pair_inverse:
  fixes c s x y :: real
  assumes "c * c + s * s = 1"
  shows "c * (c * x - s * y) + s * (s * x + c * y) = x"
    and "c * (s * x + c * y) - s * (c * x - s * y) = y"
proof -
  have "c * (c * x - s * y) + s * (s * x + c * y) = (c * c + s * s) * x"
    by (simp add: algebra_simps)
  with assms show "c * (c * x - s * y) + s * (s * x + c * y) = x" by simp
  have "c * (s * x + c * y) - s * (c * x - s * y) = (c * c + s * s) * y"
    by (simp add: algebra_simps)
  with assms show "c * (s * x + c * y) - s * (c * x - s * y) = y" by simp
qed

lemma unit_pair_norm:
  fixes c s x y :: real
  assumes "c * c + s * s = 1"
  shows "(c * x - s * y)\<^sup>2 + (s * x + c * y)\<^sup>2 = x\<^sup>2 + y\<^sup>2"
proof -
  have "(c * x - s * y)\<^sup>2 + (s * x + c * y)\<^sup>2 = (c * c + s * s) * (x\<^sup>2 + y\<^sup>2)"
    by (simp add: algebra_simps power2_eq_square)
  with assms show ?thesis by simp
qed

lemma rotate_inverse: "rotate_step (- a) (rotate_step a p) = p"
  using unit_pair_inverse [OF sin_cos_squared_add3 [of a]]
  by (cases p) (simp add: rotate_step_def)

lemma rotate_norm:
  "linalg_norm (vsub (rotate_step a p) (rotate_step a q)) = linalg_norm (vsub p q)"
proof -
  have "vsub (rotate_step a p) (rotate_step a q) = rotate_step a (vsub p q)"
    by (simp add: rotate_step_def vsub_def algebra_simps)
  then show ?thesis
    using unit_pair_norm [OF sin_cos_squared_add3 [of a]]
    by (simp add: linalg_norm_def rotate_step_def)
qed

text \<open>
  C9. The rotation by the angle \<open>0\<close> leaves every step of a trajectory as it is, and the
  rotation by \<open>\<theta>\<close> followed by the rotation by \<open>-\<theta>\<close> gives the trajectory back (exactly,
  on real numbers).
\<close>

theorem rotation_identity_roundtrip:
  "rotate_trajectory 0 row = row \<and>
   rotate_trajectory (- \<theta>) (rotate_trajectory \<theta> row) = row"
  unfolding rotate_trajectory_def
  by (induction row) (simp_all add: rotate_zero rotate_inverse)

lemma foldl_rows:
  "k \<le> length b \<Longrightarrow>
   foldl (\<lambda>b i. b[i := g (b ! i)]) b [0..<k] = map g (take k b) @ drop k b"
proof (induction k)
  case 0
  show ?case by simp
next
  case (Suc k)
  then have k: "k < length b" by simp
  have "(map g (take k b) @ drop k b)[k := g ((map g (take k b) @ drop k b) ! k)]
        = map g (take k b) @ (drop k b)[0 := g (b ! k)]"
    using k by (simp add: list_update_append nth_append)
  also have "\<dots> = map g (take k b) @ g (b ! k) # drop (Suc k) b"
    using k by (simp add: Cons_nth_drop_Suc [symmetric])
  also have "\<dots> = map g (take (Suc k) b) @ drop (Suc k) b"
    using k by (simp add: take_Suc_conv_app_nth)
  finally show ?case using Suc k by simp
qed

lemma trajectory_loop_foldl:
  "u < length h \<Longrightarrow>
   trajectory_loop conf obs u is h =
     h[u := foldl (\<lambda>b i. b[i := corrected_row conf obs (b ! i)]) (h ! u) is]"
proof (induction "is" arbitrary: h)
  case Nil
  show ?case by simp
next
  case (Cons i "is")
  then show ?case by (simp add: Let_def corrected_row_def)
qed

lemma trajectory_loop_all:
  "u < length h \<Longrightarrow>
   trajectory_loop conf obs u [0..<length (h ! u)] h = h[u := map (corrected_row conf obs) (h ! u)]"
  by (simp add: trajectory_loop_foldl foldl_rows)

lemma apply_nonempty:
  "obs \<noteq> [] \<Longrightarrow>
   apply_repulsive_forces_to_trajectories conf (Some obs) h a =
     (length h, h @ [map (corrected_row conf (Some obs)) (h ! a)])"
proof -
  assume ne: "obs \<noteq> []"
  let ?h1 = "h @ [h ! a]"
  have "trajectory_loop conf (Some obs) (length h) [0..<length (?h1 ! length h)] ?h1
        = ?h1[length h := map (corrected_row conf (Some obs)) (?h1 ! length h)]"
    by (rule trajectory_loop_all) simp
  then have "trajectory_loop conf (Some obs) (length h) [0..<length (h ! a)] ?h1
        = h @ [map (corrected_row conf (Some obs)) (h ! a)]"
    by simp
  with ne show ?thesis
    by (simp add: apply_repulsive_forces_to_trajectories_def np_copy_def)
qed




lemma corrected_batch_nonempty:
  "obs \<noteq> [] \<Longrightarrow> corrected_batch conf (Some obs) b = map (corrected_row conf (Some obs)) b"
  by (simp add: corrected_batch_def apply_nonempty)

text \<open>
  C3. For every force vector the correction angle lies between \<open>-\<pi>/4\<close> and \<open>\<pi>/4\<close>; for
  the zero vector it is \<open>0\<close>; with obstacles present every trajectory of the batch is
  replaced by its steps all rotated by the one angle found for that trajectory, and the
  rotation keeps the distance between any two points.
\<close>

theorem heading_correction_bounded_rigid:
  assumes "frame_rate conf \<noteq> 0" and "obs \<noteq> []"
  shows "- (pi / 4) \<le> correction_angle f \<and> correction_angle f \<le> pi / 4 \<and>
         correction_angle (0, 0) = 0 \<and>
         corrected_batch conf (Some obs) b =
           map (\<lambda>row. map (rotate_step (correction_angle (worst_force conf (Some obs) row))) row) b \<and>
         linalg_norm (vsub (rotate_step \<theta> p) (rotate_step \<theta> q)) = linalg_norm (vsub p q)"
proof -
  have "corrected_batch conf (Some obs) b =
          map (\<lambda>row. map (rotate_step (correction_angle (worst_force conf (Some obs) row))) row) b"
    using assms(2) by (simp add: corrected_batch_nonempty corrected_row_def rotate_trajectory_def)
  then show ?thesis
    using correction_angle_bounds [of f] correction_angle_zero rotate_norm [of \<theta> p q] by simp
qed

lemma norm_unit_y: "linalg_norm (vsub (0, 1) (0, 0)) = 1"
  by (simp add: linalg_norm_def vsub_def)

lemma force_unit_y: "compute_repulsive_force (0, 1) (Some [(0, 0)]) 1 = (0, 1)"
  by (simp add: compute_repulsive_force_def Let_def norm_unit_y)
     (simp add: vsub_def vadd_def smult_def vdiv_def)

lemma worst_force_unit_y:
  "worst_force \<lparr>max_v = 1, frame_rate = 1\<rparr> (Some [(0, 0)]) [(0, 1)] = (0, 1)"
  by (simp add: worst_force_def point_at_def smult_def force_unit_y Let_def linalg_norm_def)

lemma correction_angle_unit_y: "correction_angle (0, 1) = pi / 4"
  using pi_gt_zero by (simp add: correction_angle_def arctan2_def clip_def)

theorem heading_correction_bounded_rigid_witness:
  "frame_rate \<lparr>max_v = 1, frame_rate = 1\<rparr> \<noteq> 0 \<and> [(0, 0) :: vec2] \<noteq> [] \<and>
   - (pi / 4) \<le> correction_angle (0, 1) \<and> correction_angle (0, 1) \<le> pi / 4 \<and>
   corrected_batch \<lparr>max_v = 1, frame_rate = 1\<rparr> (Some [(0, 0)]) [[(0, 1)]] =
     [[(- (sqrt 2 / 2), sqrt 2 / 2)]] \<and>
   linalg_norm (vsub (rotate_step 0 (0, 1)) (rotate_step 0 (0, 0))) = 1"
  using heading_correction_bounded_rigid
          [of "\<lparr>max_v = 1, frame_rate = 1\<rparr>" "[(0, 0)]" "(0, 1)" "[[(0, 1)]]" 0 "(0, 1)" "(0, 0)"]
  by (simp add: worst_force_unit_y correction_angle_unit_y norm_unit_y rotate_step_def
        cos_45 sin_45)

text \<open>
  C6. With no obstacle points (\<^verbatim>\<open>None\<close> or an array of length \<open>0\<close>) the corrector
  returns the array it was given and leaves the store as it was: the result is the input
  batch, value for value. The branch computes nothing, so nothing can raise.
\<close>

theorem empty_obstacles_pass_through:
  "apply_repulsive_forces_to_trajectories conf None h a = (a, h) \<and>
   apply_repulsive_forces_to_trajectories conf (Some []) h a = (a, h) \<and>
   corrected_batch conf None b = b \<and>
   corrected_batch conf (Some []) b = b"
  by (simp add: apply_repulsive_forces_to_trajectories_def corrected_batch_def)

text \<open>
  C10. The call leaves the input array, and every array that existed before the call,
  with the values it had; with obstacles present the result is a newly allocated array,
  different from the input.
\<close>

theorem corrector_preserves_input:
  assumes "a < length h" and "frame_rate conf \<noteq> 0"
    and "apply_repulsive_forces_to_trajectories conf obstacles h a = (a', h')"
  shows "h' ! a = h ! a \<and>
         (\<forall>b < length h. h' ! b = h ! b) \<and>
         (\<forall>obs. obstacles = Some obs \<and> obs \<noteq> [] \<longrightarrow>
            a' = length h \<and> a' \<noteq> a \<and> length h' = Suc (length h))"
proof (cases "\<exists>obs. obstacles = Some obs \<and> obs \<noteq> []")
  case True
  then obtain obs where o: "obstacles = Some obs" "obs \<noteq> []" by blast
  with assms(3) have "a' = length h" "h' = h @ [map (corrected_row conf (Some obs)) (h ! a)]"
    by (simp_all add: apply_nonempty)
  with assms(1) o show ?thesis by (simp add: nth_append)
next
  case False
  then have "obstacles = None \<or> obstacles = Some []"
    by (cases obstacles) auto
  with assms(3) have "a' = a" "h' = h"
    by (auto simp: apply_repulsive_forces_to_trajectories_def)
  with False show ?thesis by simp
qed

theorem corrector_preserves_input_witness:
  "(0::nat) < length [[[(0, 1) :: vec2]]] \<and> frame_rate \<lparr>max_v = 1, frame_rate = 1\<rparr> \<noteq> 0 \<and>
   apply_repulsive_forces_to_trajectories \<lparr>max_v = 1, frame_rate = 1\<rparr> (Some [(0, 0)])
     [[[(0, 1)]]] 0 = (1, [[[(0, 1)]], [[(- (sqrt 2 / 2), sqrt 2 / 2)]]]) \<and>
   [[[(0, 1)]], [[(- (sqrt 2 / 2), sqrt 2 / 2)]]] ! 0 = [[(0, 1) :: vec2]] \<and>
   (1::nat) \<noteq> 0"
proof -
  have e: "apply_repulsive_forces_to_trajectories \<lparr>max_v = 1, frame_rate = 1\<rparr> (Some [(0, 0)])
     [[[(0, 1)]]] 0 = (1, [[[(0, 1)]], [[(- (sqrt 2 / 2), sqrt 2 / 2)]]])"
    by (simp add: apply_nonempty corrected_row_def worst_force_unit_y correction_angle_unit_y
          rotate_trajectory_def rotate_step_def cos_45 sin_45)
  show ?thesis
    using corrector_preserves_input [OF _ _ e] e by simp
qed

subsection \<open>Properties of the depth projector\<close>

lemma argmin_less: "xs \<noteq> [] \<Longrightarrow> argmin xs < length xs"
  by (induction xs rule: argmin.induct) (simp_all add: Let_def)

lemma argmin_least: "y \<in> set xs \<Longrightarrow> xs ! argmin xs \<le> y"
proof (induction xs rule: argmin.induct)
  case 1
  then show ?case by simp
next
  case (2 x)
  then show ?case by simp
next
  case (3 x z zs)
  let ?k = "argmin (z # zs)"
  show ?case
  proof (cases "x \<le> (z # zs) ! ?k")
    case True
    with 3 show ?thesis by (auto simp: Let_def intro: order_trans)
  next
    case False
    then have "(z # zs) ! ?k \<le> x" by simp
    with False 3 show ?thesis by (auto simp: Let_def)
  qed
qed

lemma column_loop_concat:
  "column_loop cells xs sampled = sampled @ concat (map (column_pick cells) xs)"
  by (induction xs arbitrary: sampled) (simp_all add: column_pick_def Let_def)

lemma length_column_pick: "length (column_pick cells x) \<le> 1"
  by (simp add: column_pick_def Let_def)

lemma column_pick_elem:
  assumes "ob \<in> set (column_pick cells x)"
  shows "\<exists>c \<in> set cells. img_x c = x \<and> ob = (real_x c, real_z c) \<and>
           (\<forall>c' \<in> set cells. img_x c' = x \<longrightarrow> depth_val c \<le> depth_val c')"
proof -
  let ?idxs = "filter (\<lambda>i. img_x (cells ! i) = x) [0..<length cells]"
  let ?ds = "map (\<lambda>i. depth_val (cells ! i)) ?idxs"
  let ?ci = "?idxs ! argmin ?ds"
  from assms have ne: "?idxs \<noteq> []" and ob: "ob = (real_x (cells ! ?ci), real_z (cells ! ?ci))"
    by (auto simp: column_pick_def Let_def split: if_splits)
  from ne have "argmin ?ds < length ?ds" by (intro argmin_less) simp
  then have k: "argmin ?ds < length ?idxs" by simp
  then have "?ci \<in> set ?idxs" by (rule nth_mem)
  then have ci: "?ci < length cells" "img_x (cells ! ?ci) = x" by auto
  have least: "depth_val (cells ! ?ci) \<le> depth_val c'" if "c' \<in> set cells" "img_x c' = x" for c'
  proof -
    from that obtain j where j: "j < length cells" "cells ! j = c'"
      by (auto simp: in_set_conv_nth)
    with that have "j \<in> set ?idxs" by simp
    then have "depth_val (cells ! j) \<in> set ?ds" unfolding set_map by (rule imageI)
    then have "?ds ! argmin ?ds \<le> depth_val (cells ! j)" by (rule argmin_least)
    with k j show ?thesis by simp
  qed
  from ci have "cells ! ?ci \<in> set cells" by simp
  with ci ob least show ?thesis by blast
qed

lemma column_pick_nonempty:
  "c \<in> set cells \<Longrightarrow> img_x c = x \<Longrightarrow> column_pick cells x \<noteq> []"
  by (auto simp: column_pick_def Let_def filter_empty_conv in_set_conv_nth)

lemma candidates_cell:
  "c \<in> set (candidates r pts) \<Longrightarrow> img_x c = column_of r (real_x c) \<and> depth_val c = real_z c"
  by (auto simp: candidates_def rasterize_def Let_def)

lemma distinct_sampled_columns: "distinct sampled_columns"
  by (simp add: sampled_columns_def py_range_def top_view_sampling_step_def distinct_map inj_on_def)


lemma filter_column_absent:
  assumes "\<forall>c \<in> set cells. img_x c = column_of r (real_x c)" and "x \<notin> set xs"
  shows "filter (\<lambda>ob. column_of r (fst ob) = x) (concat (map (column_pick cells) xs)) = []"
proof -
  have "column_of r (fst ob) \<noteq> x" if "x' \<in> set xs" "ob \<in> set (column_pick cells x')" for ob x'
  proof -
    from column_pick_elem [OF that(2)] obtain c where
      "c \<in> set cells" "img_x c = x'" "ob = (real_x c, real_z c)" by blast
    with assms(1) have "column_of r (fst ob) = x'" by auto
    with that(1) assms(2) show ?thesis by auto
  qed
  then show ?thesis by (auto simp: filter_empty_conv)
qed

lemma filter_column_pick_other:
  assumes "\<forall>c \<in> set cells. img_x c = column_of r (real_x c)" and "x \<noteq> x'"
  shows "filter (\<lambda>ob. column_of r (fst ob) = x) (column_pick cells x') = []"
  using filter_column_absent [OF assms(1), of x "[x']"] assms(2) by simp

lemma one_per_column:
  assumes "\<forall>c \<in> set cells. img_x c = column_of r (real_x c)" and "distinct xs"
  shows "length (filter (\<lambda>ob. column_of r (fst ob) = x) (concat (map (column_pick cells) xs))) \<le> 1"
  using assms(2)
proof (induction xs)
  case Nil
  show ?case by simp
next
  case (Cons x' xs)
  show ?case
  proof (cases "x = x'")
    case True
    with Cons.prems have "x \<notin> set xs" by simp
    then have "filter (\<lambda>ob. column_of r (fst ob) = x) (concat (map (column_pick cells) xs)) = []"
      by (rule filter_column_absent [OF assms(1)])
    moreover have "length (filter (\<lambda>ob. column_of r (fst ob) = x) (column_pick cells x')) \<le> 1"
      by (rule le_trans [OF length_filter_le length_column_pick])
    ultimately show ?thesis by simp
  next
    case False
    then have "filter (\<lambda>ob. column_of r (fst ob) = x) (column_pick cells x') = []"
      by (rule filter_column_pick_other [OF assms(1)])
    with Cons show ?thesis by simp
  qed
qed

text \<open>
  C5. Whatever the point cloud, at most one emitted point lies in any lateral column, and
  no more points are emitted than there are sampled columns. Every emitted point lies in
  a sampled column, is one of the candidates of that column, and no candidate of that
  column has a smaller depth. A sampled column that has a candidate emits a point.
\<close>

theorem nearest_point_per_column:
  "length (filter (\<lambda>ob. column_of r (fst ob) = x) (sampled_obstacles r pts)) \<le> 1 \<and>
   length (sampled_obstacles r pts) \<le> length sampled_columns \<and>
   (\<forall>ob \<in> set (sampled_obstacles r pts).
      column_of r (fst ob) \<in> set sampled_columns \<and>
      (\<exists>c \<in> set (candidates r pts). real_x c = fst ob \<and> real_z c = snd ob) \<and>
      (\<forall>c \<in> set (candidates r pts).
         img_x c = column_of r (fst ob) \<longrightarrow> snd ob \<le> real_z c)) \<and>
   (\<forall>c \<in> set (candidates r pts). img_x c \<in> set sampled_columns \<longrightarrow>
      (\<exists>ob \<in> set (sampled_obstacles r pts). column_of r (fst ob) = img_x c))"
proof -
  let ?cells = "candidates r pts"
  let ?out = "sampled_obstacles r pts"
  have out: "?out = concat (map (column_pick ?cells) sampled_columns)"
    by (simp add: sampled_obstacles_def column_loop_concat)
  have inv: "\<forall>c \<in> set ?cells. img_x c = column_of r (real_x c)"
    using candidates_cell by blast
  have a: "length (filter (\<lambda>ob. column_of r (fst ob) = x) ?out) \<le> 1"
    unfolding out by (rule one_per_column [OF inv distinct_sampled_columns])
  have "length (concat (map (column_pick ?cells) xs)) \<le> length xs" for xs
  proof (induction xs)
    case Nil
    show ?case by simp
  next
    case (Cons x' xs)
    with length_column_pick [of ?cells x'] show ?case by simp
  qed
  then have b: "length ?out \<le> length sampled_columns" unfolding out .
  have c: "column_of r (fst ob) \<in> set sampled_columns \<and>
      (\<exists>c \<in> set ?cells. real_x c = fst ob \<and> real_z c = snd ob) \<and>
      (\<forall>c \<in> set ?cells. img_x c = column_of r (fst ob) \<longrightarrow> snd ob \<le> real_z c)"
    if "ob \<in> set ?out" for ob
  proof -
    from that obtain x' where x': "x' \<in> set sampled_columns" "ob \<in> set (column_pick ?cells x')"
      unfolding out by auto
    from column_pick_elem [OF x'(2)] obtain c where c: "c \<in> set ?cells" "img_x c = x'"
      "ob = (real_x c, real_z c)"
      "\<forall>c' \<in> set ?cells. img_x c' = x' \<longrightarrow> depth_val c \<le> depth_val c'" by blast
    from c(1,2,3) inv have col: "column_of r (fst ob) = x'" by auto
    have "snd ob \<le> real_z c'" if "c' \<in> set ?cells" "img_x c' = x'" for c'
      using c(1,3,4) that candidates_cell [of c r pts] candidates_cell [of c' r pts] by auto
    with col x'(1) c(1,3) show ?thesis by auto
  qed
  have d: "\<exists>ob \<in> set ?out. column_of r (fst ob) = img_x c"
    if "c \<in> set ?cells" "img_x c \<in> set sampled_columns" for c
  proof -
    from column_pick_nonempty [OF that(1) refl] obtain ob where
      ob: "ob \<in> set (column_pick ?cells (img_x c))"
      by (cases "column_pick ?cells (img_x c)") auto
    from column_pick_elem [OF ob] inv have "column_of r (fst ob) = img_x c" by auto
    moreover from ob that(2) have "ob \<in> set ?out" unfolding out by auto
    ultimately show ?thesis by blast
  qed
  from a b c d show ?thesis by blast
qed

lemma cand0: "candidates Locobot [(0, 0, 1 / 2), (0, 0, 3 / 10), (1 / 2, 0, 1 / 5)] =
  [\<lparr>img_x = 200, img_y = 220, depth_val = 9 / 20, real_x = 0, real_z = 9 / 20\<rparr>,
   \<lparr>img_x = 200, img_y = 300, depth_val = 1 / 4, real_x = 0, real_z = 1 / 4\<rparr>]"
  by (simp add: candidates_def rasterize_def shifted_depth_def column_of_def np_int32_def
        top_view_size_def top_view_resolution_def in_view_def Let_def)

lemma so0: "sampled_obstacles Locobot [(0, 0, 1 / 2), (0, 0, 3 / 10), (1 / 2, 0, 1 / 5)] = [(0, 1 / 4)]"
  unfolding sampled_obstacles_def cand0
  by code_simp

lemma col200: "200 \<in> set sampled_columns"
  by (simp add: sampled_columns_def py_range_def top_view_size_def top_view_sampling_step_def)

theorem nearest_point_per_column_witness:
  "sampled_obstacles Locobot [(0, 0, 1 / 2), (0, 0, 3 / 10), (1 / 2, 0, 1 / 5)] = [(0, 1 / 4)] \<and>
   column_of Locobot 0 = 200 \<and> 200 \<in> set sampled_columns \<and>
   length (filter (\<lambda>ob. column_of Locobot (fst ob) = 200)
     (sampled_obstacles Locobot [(0, 0, 1 / 2), (0, 0, 3 / 10), (1 / 2, 0, 1 / 5)])) \<le> 1 \<and>
   map img_x (candidates Locobot [(0, 0, 1 / 2), (0, 0, 3 / 10), (1 / 2, 0, 1 / 5)]) = [200, 200] \<and>
   map real_z (candidates Locobot [(0, 0, 1 / 2), (0, 0, 3 / 10), (1 / 2, 0, 1 / 5)])
     = [9 / 20, 1 / 4]"
  using nearest_point_per_column [of Locobot 200 "[(0, 0, 1 / 2), (0, 0, 3 / 10), (1 / 2, 0, 1 / 5)]"]
    col200
  by (simp add: so0 cand0 column_of_def np_int32_def top_view_size_def)


text \<open>
  C7. A point \<open>(X, Y, Z)\<close> of the cloud passes the mask exactly when
  \<^verbatim>\<open>0 < Z <= proximity_threshold\<close> and \<^verbatim>\<open>Y >= -0.05\<close>. The depth of a point that is
  rasterized, the one stored with it and the one its row is computed from, is
  \<^verbatim>\<open>max(Z - safety_margin, 1e-3)\<close>, which is positive. An accepted frame sets the
  obstacles from the points that pass the mask.
\<close>

theorem validity_filter_and_shift:
  "(valid_mask r (X, Y, Z) \<longleftrightarrow> 0 < Z \<and> Z \<le> proximity_threshold r \<and> - (5 / 100) \<le> Y) \<and>
   ((X, Y, Z) \<in> set (filter (valid_mask r) pts) \<longleftrightarrow>
      (X, Y, Z) \<in> set pts \<and> 0 < Z \<and> Z \<le> proximity_threshold r \<and> - (5 / 100) \<le> Y) \<and>
   depth_val (rasterize r (X, Y, Z)) = max (Z - safety_margin r) (1 / 1000) \<and>
   real_z (rasterize r (X, Y, Z)) = max (Z - safety_margin r) (1 / 1000) \<and>
   img_y (rasterize r (X, Y, Z)) =
     np_int32 (real_of_int (snd top_view_size)
               - max (Z - safety_margin r) (1 / 1000) * top_view_resolution r) \<and>
   0 < depth_val (rasterize r (X, Y, Z)) \<and>
   (\<not> real_of_int (now - last_ctx_time s) < (1 / 4) * 10 ^ 9 \<longrightarrow>
      obstacle_points (image_cb now frame pts s) =
        update_top_view_and_obstacles (robot s) (filter (valid_mask (robot s)) pts))"
  by (simp add: valid_mask_def rasterize_def shifted_depth_def Let_def image_cb_def)

theorem validity_filter_and_shift_witness:
  "valid_mask Locobot (0, 0, 1 / 2) \<and> \<not> valid_mask Locobot (0, 0, 2) \<and>
   filter (valid_mask Locobot) [(0, 0, 1 / 2), (0, 0, 2), (0, - 1, 1 / 2)] = [(0, 0, 1 / 2)] \<and>
   depth_val (rasterize Locobot (0, 0, 1 / 2)) = 9 / 20 \<and>
   depth_val (rasterize Locobot (0, 0, 1 / 100)) = 1 / 1000 \<and>
   img_y (rasterize Locobot (0, 0, 1 / 2)) = 220 \<and>
   \<not> real_of_int (10 ^ 9 - last_ctx_time \<lparr>robot = Locobot, robot_config = \<lparr>max_v = 1, frame_rate = 4\<rparr>,
        context_size = 3, waypoint = 2, normalize = False, context_queue = [] :: nat list,
        last_ctx_time = 0, obstacle_points = None\<rparr>) < (1 / 4) * 10 ^ 9 \<and>
   obstacle_points (image_cb (10 ^ 9) 7 [(0, 0, 1 / 2), (0, 0, 2), (0, - 1, 1 / 2)]
      \<lparr>robot = Locobot, robot_config = \<lparr>max_v = 1, frame_rate = 4\<rparr>,
        context_size = 3, waypoint = 2, normalize = False, context_queue = [] :: nat list,
        last_ctx_time = 0, obstacle_points = None\<rparr>) =
     update_top_view_and_obstacles Locobot [(0, 0, 1 / 2)]"
  using validity_filter_and_shift [of Locobot 0 0 "1 / 2" "[(0, 0, 1 / 2), (0, 0, 2), (0, - 1, 1 / 2)]"
      "10 ^ 9" "\<lparr>robot = Locobot, robot_config = \<lparr>max_v = 1, frame_rate = 4\<rparr>,
        context_size = 3, waypoint = 2, normalize = False, context_queue = [] :: nat list,
        last_ctx_time = 0, obstacle_points = None\<rparr>" 7]
    validity_filter_and_shift [of Locobot 0 0 "1 / 100" "[]" 0
      "\<lparr>robot = Locobot, robot_config = \<lparr>max_v = 1, frame_rate = 4\<rparr>,
        context_size = 3, waypoint = 2, normalize = False, context_queue = [] :: nat list,
        last_ctx_time = 0, obstacle_points = None\<rparr>" 7]
  by (simp add: valid_mask_def top_view_size_def top_view_resolution_def np_int32_def)

subsection \<open>Properties of the timer callback\<close>

text \<open>
  C8. While the context queue holds at most \<^verbatim>\<open>context_size\<close> frames, the timer
  callback of either node publishes nothing and reports no error, whatever the sampler
  would do.
\<close>

theorem timer_noop_without_context:
  assumes "length (context_queue s) \<le> context_size s"
  shows "timer_cb sampler s = ([], None) \<and> timer_cb_plain sampler s = ([], None)"
  using assms by (simp add: timer_cb_def timer_cb_plain_def)

theorem timer_noop_without_context_witness:
  "length (context_queue \<lparr>robot = Locobot, robot_config = \<lparr>max_v = 1, frame_rate = 4\<rparr>,
      context_size = 3, waypoint = 2, normalize = False, context_queue = [1, 2, 3 :: nat],
      last_ctx_time = 0, obstacle_points = None\<rparr>) \<le> 3 \<and>
   timer_cb (\<lambda>q. Inr [[(1, 0), (2, 0), (3, 0)]])
     \<lparr>robot = Locobot, robot_config = \<lparr>max_v = 1, frame_rate = 4\<rparr>,
      context_size = 3, waypoint = 2, normalize = False, context_queue = [1, 2, 3 :: nat],
      last_ctx_time = 0, obstacle_points = None\<rparr> = ([], None) \<and>
   timer_cb_plain (\<lambda>q. Inl InferenceError)
     \<lparr>robot = Locobot, robot_config = \<lparr>max_v = 1, frame_rate = 4\<rparr>,
      context_size = 3, waypoint = 2, normalize = False, context_queue = [1, 2, 3 :: nat],
      last_ctx_time = 0, obstacle_points = None\<rparr> = ([], None)"
  using timer_noop_without_context
      [of "\<lparr>robot = Locobot, robot_config = \<lparr>max_v = 1, frame_rate = 4\<rparr>,
      context_size = 3, waypoint = 2, normalize = False, context_queue = [1, 2, 3 :: nat],
      last_ctx_time = 0, obstacle_points = None\<rparr>" "\<lambda>q. Inr [[(1, 0), (2, 0), (3, 0)]]"]
    timer_noop_without_context
      [of "\<lparr>robot = Locobot, robot_config = \<lparr>max_v = 1, frame_rate = 4\<rparr>,
      context_size = 3, waypoint = 2, normalize = False, context_queue = [1, 2, 3 :: nat],
      last_ctx_time = 0, obstacle_points = None\<rparr>" "\<lambda>q. Inl InferenceError"]
  by simp

end
